theory Spec2Isabelle
  imports Complex_Main
begin

section \<open>JavaScript values\<close>

text \<open>
  The services receive values of type \<open>any\<close>: raw errors, the \<open>err\<close> field of an RPC
  response, thrown values. They are modelled as finite trees. \<open>JNum\<close> carries the integral
  numbers only, \<open>JError name message\<close> is an instance of \<open>Error\<close> (or of a subclass called
  \<open>name\<close>) whose message is a string, and \<open>JObj\<close> lists the own enumerable properties
  of a plain object in the order \<open>Object.keys\<close> reports them. Getters, proxies, a custom
  \<open>toString\<close> and cyclic objects are outside the model.
\<close>

datatype jsval =
    JUndefined
  | JNull
  | JBool bool
  | JNum int
  | JStr string
  | JArr "jsval list"
  | JObj "(string \<times> jsval) list"
  | JError string string

text \<open>Anything can be thrown; a raise is the left injection of a sum.\<close>

type_synonym exn = jsval

text \<open>
  A \<open>TypeError\<close> raised by the runtime. Its message text depends on the engine; only the
  fact that it is raised matters below.
\<close>

definition TypeError :: "string \<Rightarrow> exn" where
  "TypeError what = JError ''TypeError'' what"

fun truthy :: "jsval \<Rightarrow> bool" where
  "truthy JUndefined = False"
| "truthy JNull = False"
| "truthy (JBool b) = b"
| "truthy (JNum n) = (n \<noteq> 0)"
| "truthy (JStr s) = (s \<noteq> [])"
| "truthy (JArr xs) = True"
| "truthy (JObj kvs) = True"
| "truthy (JError n m) = True"

fun is_string :: "jsval \<Rightarrow> bool" where
  "is_string (JStr s) = True"
| "is_string v = False"

text \<open>\<open>typeof v === 'object'\<close>: true of \<open>null\<close> as well.\<close>

fun is_object :: "jsval \<Rightarrow> bool" where
  "is_object JNull = True"
| "is_object (JArr xs) = True"
| "is_object (JObj kvs) = True"
| "is_object (JError n m) = True"
| "is_object v = False"

fun is_error :: "jsval \<Rightarrow> bool" where
  "is_error (JError n m) = True"
| "is_error v = False"

fun is_array :: "jsval \<Rightarrow> bool" where
  "is_array (JArr xs) = True"
| "is_array v = False"

text \<open>
  Property read \<open>v.k\<close>. The source reads a property only behind a truthiness guard or
  through \<open>?.\<close>, so the read of a property of \<open>null\<close> or \<open>undefined\<close> (a \<open>TypeError\<close>
  when unguarded) is given the value \<open>?.\<close> gives it.
\<close>

fun getProp :: "jsval \<Rightarrow> string \<Rightarrow> jsval" where
  "getProp (JObj kvs) k = (case map_of kvs k of Some v \<Rightarrow> v | None \<Rightarrow> JUndefined)"
| "getProp (JError n m) k =
     (if k = ''message'' then JStr m else if k = ''name'' then JStr n else JUndefined)"
| "getProp v k = JUndefined"

text \<open>\<open>k in v\<close> for an object \<open>v\<close> other than \<open>null\<close>, over the modelled properties.\<close>

fun has_key :: "jsval \<Rightarrow> string \<Rightarrow> bool" where
  "has_key (JObj kvs) k = (k \<in> set (map fst kvs))"
| "has_key (JError n m) k = (k = ''message'' \<or> k = ''name'')"
| "has_key v k = False"

text \<open>\<open>Object.keys(v)[0]\<close>\<close>

fun first_key :: "jsval \<Rightarrow> jsval" where
  "first_key (JObj ((k, v) # kvs)) = JStr k"
| "first_key (JArr (x # xs)) = JStr ''0''"
| "first_key v = JUndefined"

text \<open>Array element \<open>xs[i]\<close>, \<open>undefined\<close> out of range.\<close>

definition elem :: "jsval list \<Rightarrow> nat \<Rightarrow> jsval" where
  "elem xs i = (if i < length xs then xs ! i else JUndefined)"

subsection \<open>Conversion to string\<close>

definition digit :: "nat \<Rightarrow> char" where
  "digit d = char_of (48 + d)"

fun show_nat :: "nat \<Rightarrow> string" where
  "show_nat n = (if n < 10 then [digit n] else show_nat (n div 10) @ [digit (n mod 10)])"

definition show_int :: "int \<Rightarrow> string" where
  "show_int i = (if i < 0 then CHR ''-'' # show_nat (nat (- i)) else show_nat (nat i))"

fun join :: "string \<Rightarrow> string list \<Rightarrow> string" where
  "join sep [] = []"
| "join sep [s] = s"
| "join sep (s # t # ts) = s @ sep @ join sep (t # ts)"

text \<open>What a template literal \<open>`${v}`\<close> and \<open>String(v)\<close> give.\<close>

fun toStr :: "jsval \<Rightarrow> string" where
  "toStr JUndefined = ''undefined''"
| "toStr JNull = ''null''"
| "toStr (JBool b) = (if b then ''true'' else ''false'')"
| "toStr (JNum n) = show_int n"
| "toStr (JStr s) = s"
| "toStr (JArr xs) =
     join '','' (map (\<lambda>x. if x = JNull \<or> x = JUndefined then [] else toStr x) xs)"
| "toStr (JObj kvs) = ''[object Object]''"
| "toStr (JError n m) = (if m = [] then n else if n = [] then m else n @ '': '' @ m)"

subsection \<open>Strings\<close>

text \<open>
  \<open>String.prototype.toLowerCase\<close> on the characters of \<open>string\<close>: the letters A to Z
  are mapped to a to z, every other character is left as it is.
\<close>

definition lower_char :: "char \<Rightarrow> char" where
  "lower_char c =
     (let n = (of_char c :: nat) in if 65 \<le> n \<and> n \<le> 90 then char_of (n + 32) else c)"

definition toLowerCase :: "string \<Rightarrow> string" where
  "toLowerCase s = map lower_char s"

fun startsWith :: "string \<Rightarrow> string \<Rightarrow> bool" where
  "startsWith s [] = True"
| "startsWith [] (p # ps) = False"
| "startsWith (c # cs) (p # ps) = (c = p \<and> startsWith cs ps)"

text \<open>\<open>String.prototype.includes\<close>\<close>

fun str_includes :: "string \<Rightarrow> string \<Rightarrow> bool" where
  "str_includes [] p = (p = [])"
| "str_includes (c # cs) p = (startsWith (c # cs) p \<or> str_includes cs p)"


subsection \<open>JSON.stringify\<close>

text \<open>
  \<open>JSON.stringify\<close> on the modelled values: \<open>None\<close> stands for the result
  \<open>undefined\<close>. A property whose value is \<open>undefined\<close> is left out, an array element
  that is \<open>undefined\<close> is written \<open>null\<close>, and an \<open>Error\<close> has no enumerable property.
  On these values it never throws; the services below take the function as a parameter,
  so that what is proved of them holds for the values it throws on as well.
\<close>

definition hexdigit :: "nat \<Rightarrow> char" where
  "hexdigit d = (if d < 10 then char_of (48 + d) else char_of (87 + d))"

definition json_escape :: "char \<Rightarrow> string" where
  "json_escape c =
     (let n = (of_char c :: nat) in
      if n = 34 then [CHR 0x5C, CHR 0x22]
      else if n = 92 then [CHR 0x5C, CHR 0x5C]
      else if n = 8 then [CHR 0x5C, CHR ''b'']
      else if n = 12 then [CHR 0x5C, CHR ''f'']
      else if n = 10 then [CHR 0x5C, CHR ''n'']
      else if n = 13 then [CHR 0x5C, CHR ''r'']
      else if n = 9 then [CHR 0x5C, CHR ''t'']
      else if n < 32 then
        [CHR 0x5C, CHR ''u'', CHR ''0'', CHR ''0'', hexdigit (n div 16), hexdigit (n mod 16)]
      else [c])"

definition json_quote :: "string \<Rightarrow> string" where
  "json_quote s = CHR 0x22 # concat (map json_escape s) @ [CHR 0x22]"

fun json :: "jsval \<Rightarrow> string option" where
  "json JUndefined = None"
| "json JNull = Some ''null''"
| "json (JBool b) = Some (if b then ''true'' else ''false'')"
| "json (JNum n) = Some (show_int n)"
| "json (JStr s) = Some (json_quote s)"
| "json (JArr xs) =
     Some (''['' @ join '','' (map (\<lambda>x. case json x of None \<Rightarrow> ''null'' | Some s \<Rightarrow> s) xs)
           @ '']'')"
| "json (JObj kvs) =
     Some (''{'' @ join '',''
             (concat (map (\<lambda>kv. case json (snd kv) of
                                   None \<Rightarrow> []
                                 | Some s \<Rightarrow> [json_quote (fst kv) @ '':'' @ s]) kvs))
           @ ''}'')"
| "json (JError n m) = Some ''{}''"

definition JSON_stringify :: "jsval \<Rightarrow> exn + jsval" where
  "JSON_stringify v = Inr (case json v of None \<Rightarrow> JUndefined | Some s \<Rightarrow> JStr s)"


section \<open>ErrorHandlerService\<close>

datatype ErrorCategory =
    NETWORK | WALLET | TRANSACTION | SLIPPAGE | LIQUIDITY | VALIDATION
  | RAYDIUM | TOKEN | RPC | CONFIGURATION | UNKNOWN

datatype ErrorSeverity = LOW | MEDIUM | HIGH | CRITICAL

record ErrorInfo =
  category :: ErrorCategory
  severity :: ErrorSeverity
  message :: string
  suggestion :: string
  retryable :: bool
  technicalDetails :: "string option"

text \<open>
  \<open>extractErrorMessage\<close>. \<open>JSON.stringify\<close> is a parameter: it returns a string or
  \<open>undefined\<close>, or throws (on a cyclic object or a \<open>BigInt\<close>). The declared result type
  is \<open>string\<close>, but the third object branch returns \<open>error.cause.message\<close> as it finds it.
\<close>

definition extractErrorMessage :: "(jsval \<Rightarrow> exn + jsval) \<Rightarrow> jsval \<Rightarrow> exn + jsval" where
  "extractErrorMessage stringify error =
     (if is_string error then Inr error
      else if is_error error then Inr (getProp error ''message'')
      else if truthy error \<and> is_object error then
        (if truthy (getProp error ''InstructionError'') then
           (case stringify (getProp error ''InstructionError'') of
              Inl e \<Rightarrow> Inl e
            | Inr j \<Rightarrow> Inr (JStr (''Instruction error: '' @ toStr j)))
         else if truthy (getProp error ''code'') \<and> truthy (getProp error ''message'') then
           Inr (JStr (''RPC Error '' @ toStr (getProp error ''code'') @ '': ''
                        @ toStr (getProp error ''message'')))
         else if truthy (getProp error ''cause'') \<and> truthy (getProp (getProp error ''cause'') ''message'') then
           Inr (getProp (getProp error ''cause'') ''message'')
         else stringify error)
      else Inr (JStr ''Unknown error occurred''))"

definition matchesPattern :: "string \<Rightarrow> string list \<Rightarrow> bool" where
  "matchesPattern msg patterns = list_ex (\<lambda>pattern. str_includes msg pattern) patterns"

definition categorizeError :: "string \<Rightarrow> ErrorCategory" where
  "categorizeError errorMessage =
     (let lowerMessage = toLowerCase errorMessage in
      if matchesPattern lowerMessage
           [''network'', ''timeout'', ''connection'', ''econnreset'', ''enotfound'',
            ''fetch'', ''429'', ''rate limit'', ''service unavailable'']
      then NETWORK
      else if matchesPattern lowerMessage
           [''rpc'', ''node'', ''endpoint'', ''blockhash'', ''slot'', ''commitment'']
      then RPC
      else if matchesPattern lowerMessage
           [''insufficient funds'', ''balance'', ''account not found'', ''private key'',
            ''keypair'', ''signature'', ''unauthorized'']
      then WALLET
      else if matchesPattern lowerMessage
           [''transaction'', ''instruction'', ''simulation failed'', ''compute'',
            ''program error'', ''account in use'', ''blockhash expired'']
      then TRANSACTION
      else if matchesPattern lowerMessage
           [''slippage'', ''price'', ''tolerance'', ''minimum'', ''maximum'', ''amount'']
      then SLIPPAGE
      else if matchesPattern lowerMessage
           [''liquidity'', ''pool'', ''reserves'', ''lp token'', ''swap'', ''amm'']
      then LIQUIDITY
      else if matchesPattern lowerMessage
           [''raydium'', ''pool info'', ''pool keys'', ''market'', ''openbook'']
      then RAYDIUM
      else if matchesPattern lowerMessage
           [''token'', ''mint'', ''decimals'', ''spl'', ''associated token account'']
      then TOKEN
      else if matchesPattern lowerMessage
           [''invalid'', ''validation'', ''format'', ''required'', ''missing'', ''expected'']
      then VALIDATION
      else if matchesPattern lowerMessage
           [''environment'', ''config'', ''api key'', ''url'', ''setting'']
      then CONFIGURATION
      else UNKNOWN)"

definition determineSeverity :: "ErrorCategory \<Rightarrow> string \<Rightarrow> ErrorSeverity" where
  "determineSeverity cat msg =
     (let lowerMessage = toLowerCase msg in
      if cat = CONFIGURATION \<or> str_includes lowerMessage ''private key''
           \<or> str_includes lowerMessage ''critical''
      then CRITICAL
      else if cat = WALLET \<and> str_includes lowerMessage ''insufficient''
           \<or> cat = TRANSACTION \<and> str_includes lowerMessage ''failed''
           \<or> str_includes lowerMessage ''unauthorized''
      then HIGH
      else if cat = SLIPPAGE \<or> cat = LIQUIDITY \<or> cat = RPC
      then MEDIUM
      else LOW)"

fun getErrorInfo :: "ErrorCategory \<Rightarrow> string \<Rightarrow> ErrorInfo" where
  "getErrorInfo NETWORK msg =
     \<lparr>category = NETWORK, severity = determineSeverity NETWORK msg,
      message = ''Network connection issue'',
      suggestion = ''Check internet connection, try different RPC endpoint, or wait and retry'',
      retryable = True, technicalDetails = Some msg\<rparr>"
| "getErrorInfo RPC msg =
     \<lparr>category = RPC, severity = determineSeverity RPC msg,
      message = ''RPC endpoint error'',
      suggestion = ''Verify Helius API key, check RPC URL, or try different commitment level'',
      retryable = True, technicalDetails = Some msg\<rparr>"
| "getErrorInfo WALLET msg =
     (if str_includes (toLowerCase msg) ''insufficient'' then
        \<lparr>category = WALLET, severity = HIGH,
         message = ''Insufficient balance in wallet'',
         suggestion = ''Add more SOL to wallet or reduce transaction amount. Keep ~0.01 SOL for fees'',
         retryable = False, technicalDetails = Some msg\<rparr>
      else
        \<lparr>category = WALLET, severity = determineSeverity WALLET msg,
         message = ''Wallet authentication or access error'',
         suggestion = ''Check private key format, wallet permissions, or account status'',
         retryable = False, technicalDetails = Some msg\<rparr>)"
| "getErrorInfo SLIPPAGE msg =
     \<lparr>category = SLIPPAGE, severity = MEDIUM,
      message = ''Transaction failed due to price movement'',
      suggestion = ''Increase slippage tolerance (--slippage 1.0) or try during stable market conditions'',
      retryable = True, technicalDetails = Some msg\<rparr>"
| "getErrorInfo TRANSACTION msg =
     (if str_includes (toLowerCase msg) ''simulation'' then
        \<lparr>category = TRANSACTION, severity = HIGH,
         message = ''Transaction simulation failed'',
         suggestion = ''Check wallet balance, slippage settings, or pool availability'',
         retryable = True, technicalDetails = Some msg\<rparr>
      else
        \<lparr>category = TRANSACTION, severity = determineSeverity TRANSACTION msg,
         message = ''Transaction execution error'',
         suggestion = ''Retry with higher priority fee or different parameters'',
         retryable = True, technicalDetails = Some msg\<rparr>)"
| "getErrorInfo LIQUIDITY msg =
     \<lparr>category = LIQUIDITY, severity = MEDIUM,
      message = ''Liquidity pool operation failed'',
      suggestion = ''Check pool health, verify pool ID, or try smaller amounts'',
      retryable = True, technicalDetails = Some msg\<rparr>"
| "getErrorInfo RAYDIUM msg =
     \<lparr>category = RAYDIUM, severity = MEDIUM,
      message = ''Raydium protocol error'',
      suggestion = ''Verify pool exists and is active, check Raydium API status'',
      retryable = True, technicalDetails = Some msg\<rparr>"
| "getErrorInfo TOKEN msg =
     \<lparr>category = TOKEN, severity = MEDIUM,
      message = ''Token operation failed'',
      suggestion = ''Check token accounts exist, verify mint addresses, or create associated accounts'',
      retryable = True, technicalDetails = Some msg\<rparr>"
| "getErrorInfo VALIDATION msg =
     \<lparr>category = VALIDATION, severity = LOW,
      message = ''Input validation failed'',
      suggestion = ''Check command parameters, format, and ranges'',
      retryable = False, technicalDetails = Some msg\<rparr>"
| "getErrorInfo CONFIGURATION msg =
     \<lparr>category = CONFIGURATION, severity = CRITICAL,
      message = ''Configuration error'',
      suggestion = ''Check .env file settings, API keys, and environment variables'',
      retryable = False, technicalDetails = Some msg\<rparr>"
| "getErrorInfo UNKNOWN msg =
     \<lparr>category = UNKNOWN, severity = LOW,
      message = ''An unexpected error occurred'',
      suggestion = ''Enable verbose logging (--verbose) for more details or contact support'',
      retryable = True, technicalDetails = Some msg\<rparr>"

text \<open>
  The part of \<open>handleError\<close> after the extraction, on a message that is a string:
  \<open>categorizeError\<close>, then \<open>getErrorInfo\<close> (the severity \<open>handleError\<close> computes itself
  is not used in the result).
\<close>

definition classifyMessage :: "string \<Rightarrow> ErrorInfo" where
  "classifyMessage errorString = getErrorInfo (categorizeError errorString) errorString"

text \<open>
  \<open>handleError\<close>. The first thing done with the extracted value is
  \<open>errorMessage.toLowerCase()\<close> in \<open>categorizeError\<close>, which throws a \<open>TypeError\<close> on
  anything but a string. The logging of the result is left out.
\<close>

definition handleError :: "(jsval \<Rightarrow> exn + jsval) \<Rightarrow> jsval \<Rightarrow> exn + ErrorInfo" where
  "handleError stringify error =
     (case extractErrorMessage stringify error of
        Inl e \<Rightarrow> Inl e
      | Inr (JStr errorString) \<Rightarrow> Inr (classifyMessage errorString)
      | Inr v \<Rightarrow> Inl (TypeError ''errorMessage.toLowerCase is not a function''))"

definition shouldRetry :: "ErrorInfo \<Rightarrow> int \<Rightarrow> int \<Rightarrow> bool" where
  "shouldRetry errorInfo attempt maxRetries =
     (if attempt \<ge> maxRetries then False
      else if \<not> retryable errorInfo then False
      else if severity errorInfo = CRITICAL then False
      else if category errorInfo = VALIDATION then False
      else True)"


section \<open>TransactionService\<close>

record TransactionResult =
  success :: bool
  signature :: "string option"
  error :: "string option"

subsection \<open>Simulation\<close>

text \<open>
  The \<open>value\<close> of the response of \<open>connection.simulateTransaction\<close>: \<open>err\<close> and
  \<open>logs\<close> (\<open>None\<close> for \<open>null\<close>). An RPC call either throws or returns.
\<close>

record SimulatedTransactionResponse =
  sim_err :: jsval
  sim_logs :: "string list option"

record SimulationResult =
  sim_success :: bool
  sim_error :: "string option"
  logs :: "string list option"

fun items :: "jsval \<Rightarrow> jsval list" where
  "items (JArr xs) = xs"
| "items v = []"

text \<open>
  \<open>parseTransactionError\<close>. \<open>'Custom' in instructionError\<close> throws a \<open>TypeError\<close>
  when \<open>instructionError\<close> is \<open>null\<close>, whose \<open>typeof\<close> is \<open>'object'\<close>.
\<close>

definition parseTransactionError :: "(jsval \<Rightarrow> exn + jsval) \<Rightarrow> jsval \<Rightarrow> exn + string" where
  "parseTransactionError stringify e =
     (if is_string e then Inr (toStr e)
      else if truthy e \<and> is_object e then
        (if has_key e ''InstructionError'' \<and> is_array (getProp e ''InstructionError'') then
           (let instructionIndex = elem (items (getProp e ''InstructionError'')) 0;
                instructionError = elem (items (getProp e ''InstructionError'')) 1
            in if is_object instructionError then
                 (if instructionError = JNull then
                    Inl (TypeError ''Cannot use in operator to search for Custom in null'')
                  else if has_key instructionError ''Custom'' then
                    Inr (''Instruction '' @ toStr instructionIndex @ '' failed with custom error ''
                           @ toStr (getProp instructionError ''Custom''))
                  else
                    Inr (''Instruction '' @ toStr instructionIndex @ '' failed: ''
                           @ toStr (first_key instructionError)))
               else
                 Inr (''Instruction '' @ toStr instructionIndex @ '' failed: ''
                        @ toStr instructionError))
         else Inr (''Transaction failed: '' @ toStr (first_key e)))
      else
        (case stringify e of
           Inl x \<Rightarrow> Inl x
         | Inr j \<Rightarrow> Inr (''Unknown transaction error: '' @ toStr j)))"

definition orEmpty :: "string list option \<Rightarrow> string list" where
  "orEmpty l = (case l of None \<Rightarrow> [] | Some xs \<Rightarrow> xs)"

text \<open>The \<open>try\<close> block of \<open>simulateTransaction\<close>: what it returns, or what it throws.\<close>

definition simulate_try ::
  "(jsval \<Rightarrow> exn + jsval) \<Rightarrow> exn + SimulatedTransactionResponse \<Rightarrow> exn + SimulationResult" where
  "simulate_try stringify rpc =
     (case rpc of
        Inl e \<Rightarrow> Inl e
      | Inr v \<Rightarrow>
          if truthy (sim_err v) then
            (case parseTransactionError stringify (sim_err v) of
               Inl e \<Rightarrow> Inl e
             | Inr errorMsg \<Rightarrow>
                 Inr \<lparr>sim_success = False, sim_error = Some errorMsg,
                      logs = Some (orEmpty (sim_logs v))\<rparr>)
          else
            Inr \<lparr>sim_success = True, sim_error = None, logs = Some (orEmpty (sim_logs v))\<rparr>)"

text \<open>\<open>simulateTransaction\<close>: the \<open>try\<close> block and its \<open>catch\<close>.\<close>

definition simulateTransaction ::
  "(jsval \<Rightarrow> exn + jsval) \<Rightarrow> exn + SimulatedTransactionResponse \<Rightarrow> exn + SimulationResult" where
  "simulateTransaction stringify rpc =
     (case simulate_try stringify rpc of
        Inr r \<Rightarrow> Inr r
      | Inl e \<Rightarrow>
          Inr \<lparr>sim_success = False, sim_error = Some (''Simulation failed: '' @ toStr e),
               logs = None\<rparr>)"

subsection \<open>Confirmation\<close>

text \<open>
  \<open>confirmTransaction\<close> asks for the latest blockhash, then waits on
  \<open>connection.confirmTransaction\<close>, whose response carries \<open>value.err\<close>. Either call may
  throw (the second does when the blockhash expires). The result is a boolean: a
  transaction that landed with an execution error, an expiry and a transport error all
  give \<open>false\<close>.
\<close>

definition confirm_try :: "exn + unit \<Rightarrow> exn + jsval \<Rightarrow> exn + bool" where
  "confirm_try latestBlockhash confirmation =
     (case latestBlockhash of
        Inl e \<Rightarrow> Inl e
      | Inr u \<Rightarrow> (case confirmation of Inl e \<Rightarrow> Inl e | Inr err \<Rightarrow> Inr (\<not> truthy err)))"

definition confirmTransaction :: "exn + unit \<Rightarrow> exn + jsval \<Rightarrow> bool" where
  "confirmTransaction latestBlockhash confirmation =
     (case confirm_try latestBlockhash confirmation of Inl e \<Rightarrow> False | Inr b \<Rightarrow> b)"

subsection \<open>Retry delay\<close>

text \<open>\<open>Math.pow(2, k)\<close> for an integral \<open>k\<close>.\<close>

definition pow2 :: "int \<Rightarrow> real" where
  "pow2 k = (if 0 \<le> k then 2 ^ nat k else 1 / 2 ^ nat (- k))"

text \<open>
  \<open>calculateRetryDelay\<close>, in milliseconds. The numbers of the code are IEEE doubles:
  the product with the base delay, the jitter and their sum are each rounded to the
  nearest double. The rounding is the parameter \<open>fl\<close>; \<open>Math.pow(2, k)\<close> and
  \<open>Math.min\<close> are exact. The base delay is \<open>env.retryBaseDelayMs\<close>, the ceiling is the
  constant 30000, and \<open>random\<close> is the value \<open>Math.random()\<close> returns, a number in
  \<open>[0, 1)\<close>.
\<close>

definition calculateRetryDelay :: "(real \<Rightarrow> real) \<Rightarrow> real \<Rightarrow> real \<Rightarrow> int \<Rightarrow> real" where
  "calculateRetryDelay fl retryBaseDelayMs random attempt =
     (let baseDelay = retryBaseDelayMs;
          exponentialDelay = fl (baseDelay * pow2 (attempt - 1));
          maxDelay = 30000;
          jitter = fl (random * 1000)
      in min (fl (exponentialDelay + jitter)) maxDelay)"

subsection \<open>Send and confirm\<close>

record Environment =
  maxRetries :: int
  retryBaseDelayMs :: real

record Options =
  skipPreflight :: bool
  maxRetries_opt :: "int option"
  skipConfirmation :: bool

text \<open>
  What the RPC node does during one attempt: the outcome of the simulation, of the
  submission (a signature), of \<open>getLatestBlockhash\<close> and of the wait for confirmation
  (\<open>value.err\<close>). A run is given one such record per attempt number.
\<close>

record RpcAttempt =
  simulate_rpc :: "exn + SimulatedTransactionResponse"
  send_rpc :: "exn + string"
  blockhash_rpc :: "exn + unit"
  confirm_rpc :: "exn + jsval"

text \<open>
  The trace of a run: the start of attempt \<open>i\<close>, a call of \<open>simulateTransaction\<close>, a
  call of \<open>sendTransaction\<close> (a submission to the network), a call of
  \<open>confirmTransaction\<close> on a signature, and a sleep.
\<close>

datatype event = EvAttempt int | EvSimulate | EvSend | EvConfirm string | EvSleep real

definition errorOrUndefined :: "string option \<Rightarrow> string" where
  "errorOrUndefined e = (case e of None \<Rightarrow> ''undefined'' | Some s \<Rightarrow> s)"

text \<open>The simulation step of an attempt: nothing when \<open>skipPreflight\<close> is set.\<close>

definition preflight ::
  "(jsval \<Rightarrow> exn + jsval) \<Rightarrow> Options \<Rightarrow> RpcAttempt \<Rightarrow> (exn + unit) \<times> event list" where
  "preflight stringify options rpc =
     (if \<not> skipPreflight options then
        (case simulateTransaction stringify (simulate_rpc rpc) of
           Inl e \<Rightarrow> (Inl e, [EvSimulate])
         | Inr simulationResult \<Rightarrow>
             if \<not> sim_success simulationResult then
               (Inl (JError ''Error''
                      (''Simulation failed: '' @ errorOrUndefined (sim_error simulationResult))),
                [EvSimulate])
             else (Inr (), [EvSimulate]))
      else (Inr (), []))"

text \<open>
  The body of the \<open>try\<close> block of one attempt: the result it returns or the value it
  throws, and the calls it made.
\<close>

definition attempt_try ::
  "(jsval \<Rightarrow> exn + jsval) \<Rightarrow> Options \<Rightarrow> RpcAttempt \<Rightarrow> (exn + TransactionResult) \<times> event list" where
  "attempt_try stringify options rpc =
     (case preflight stringify options rpc of
        (Inl e, evs) \<Rightarrow> (Inl e, evs)
      | (Inr u, evs) \<Rightarrow>
          (case send_rpc rpc of
             Inl e \<Rightarrow> (Inl e, evs @ [EvSend])
           | Inr sig \<Rightarrow>
               if skipConfirmation options then
                 (Inr \<lparr>success = True, signature = Some sig, error = None\<rparr>, evs @ [EvSend])
               else if confirmTransaction (blockhash_rpc rpc) (confirm_rpc rpc) then
                 (Inr \<lparr>success = True, signature = Some sig, error = None\<rparr>,
                  evs @ [EvSend, EvConfirm sig])
               else
                 (Inl (JError ''Error'' ''Transaction failed to confirm within timeout''),
                  evs @ [EvSend, EvConfirm sig])))"

definition lastErrorMessage :: "exn option \<Rightarrow> jsval" where
  "lastErrorMessage lastError =
     (case lastError of None \<Rightarrow> JUndefined | Some e \<Rightarrow> getProp e ''message'')"

text \<open>
  The loop \<open>for (let attempt = 1; attempt <= maxRetries; attempt++)\<close>, from the attempt
  number \<open>attempt\<close> on. \<open>random i\<close> is what \<open>Math.random()\<close> returns in attempt \<open>i\<close>,
  and \<open>fl\<close> is the rounding of the arithmetic of the delay.
\<close>

function attempts_from ::
  "(jsval \<Rightarrow> exn + jsval) \<Rightarrow> Environment \<Rightarrow> (real \<Rightarrow> real) \<Rightarrow> (int \<Rightarrow> real) \<Rightarrow> Options \<Rightarrow> (int \<Rightarrow> RpcAttempt)
     \<Rightarrow> int \<Rightarrow> int \<Rightarrow> exn option \<Rightarrow> TransactionResult \<times> event list" where
  "attempts_from stringify env fl random options world maxR attempt lastError =
     (if attempt \<le> maxR then
        (case attempt_try stringify options (world attempt) of
           (Inr res, evs) \<Rightarrow> (res, EvAttempt attempt # evs)
         | (Inl e, evs) \<Rightarrow>
             (case attempts_from stringify env fl random options world maxR (attempt + 1) (Some e) of
                (res, rest) \<Rightarrow>
                  (res, EvAttempt attempt # evs
                        @ (if attempt < maxR
                           then [EvSleep (calculateRetryDelay fl (retryBaseDelayMs env)
                                            (random attempt) attempt)]
                           else [])
                        @ rest)))
      else
        (\<lparr>success = False, signature = None,
          error = Some (''Transaction failed after '' @ show_int maxR @ '' attempts: ''
                         @ toStr (lastErrorMessage lastError))\<rparr>, []))"
  by pat_completeness auto
termination
  by (relation "measure (\<lambda>(stringify, env, fl, random, options, world, maxR, attempt, lastError).
                           nat (maxR + 1 - attempt))") auto

text \<open>
  \<open>options.maxRetries || env.maxRetries\<close>: zero and \<open>undefined\<close> are falsy. Both
  numbers are taken to be integers.
\<close>

definition effectiveMaxRetries :: "Environment \<Rightarrow> Options \<Rightarrow> int" where
  "effectiveMaxRetries env options =
     (case maxRetries_opt options of
        None \<Rightarrow> maxRetries env
      | Some m \<Rightarrow> if m \<noteq> 0 then m else maxRetries env)"

definition sendAndConfirmTransaction ::
  "(jsval \<Rightarrow> exn + jsval) \<Rightarrow> Environment \<Rightarrow> (real \<Rightarrow> real) \<Rightarrow> (int \<Rightarrow> real) \<Rightarrow> Options \<Rightarrow> (int \<Rightarrow> RpcAttempt)
     \<Rightarrow> TransactionResult \<times> event list" where
  "sendAndConfirmTransaction stringify env fl random options world =
     attempts_from stringify env fl random options world (effectiveMaxRetries env options) 1 None"

text \<open>The attempt numbers and the number of submissions of a trace.\<close>

fun attempt_numbers :: "event list \<Rightarrow> int list" where
  "attempt_numbers [] = []"
| "attempt_numbers (EvAttempt i # evs) = i # attempt_numbers evs"
| "attempt_numbers (ev # evs) = attempt_numbers evs"

definition submissions :: "event list \<Rightarrow> nat" where
  "submissions evs = length (filter (\<lambda>ev. ev = EvSend) evs)"

text \<open>
  An attempt whose transaction is submitted: the simulation step passes and
  \<open>sendTransaction\<close> returns a signature.
\<close>

definition submitted :: "(jsval \<Rightarrow> exn + jsval) \<Rightarrow> Options \<Rightarrow> RpcAttempt \<Rightarrow> bool" where
  "submitted stringify options rpc =
     (case fst (preflight stringify options rpc) of
        Inl e \<Rightarrow> False
      | Inr u \<Rightarrow> (case send_rpc rpc of Inl e \<Rightarrow> False | Inr sig \<Rightarrow> True))"

text \<open>
  An attempt in which the network reports that the transaction landed and failed:
  \<open>connection.confirmTransaction\<close> returns, and \<open>value.err\<close> holds an error.
\<close>

definition landedWithError :: "RpcAttempt \<Rightarrow> bool" where
  "landedWithError rpc =
     (case blockhash_rpc rpc of
        Inl e \<Rightarrow> False
      | Inr u \<Rightarrow> (case confirm_rpc rpc of Inl e \<Rightarrow> False | Inr err \<Rightarrow> truthy err))"

subsection \<open>Transaction status\<close>

text \<open>The \<open>value\<close> of the response of \<open>getSignatureStatus\<close>, \<open>None\<close> for \<open>null\<close>.\<close>

record SignatureStatus =
  slot :: "int option"
  confirmations :: "int option"
  status_err :: jsval
  confirmationStatus :: "string option"

record TransactionStatus =
  confirmed :: bool
  ts_slot :: "int option"
  ts_err :: "jsval option"
  ts_confirmations :: "int option"

definition status_try :: "exn + SignatureStatus option \<Rightarrow> exn + TransactionStatus" where
  "status_try rpc =
     (case rpc of
        Inl e \<Rightarrow> Inl e
      | Inr None \<Rightarrow>
          Inr \<lparr>confirmed = False, ts_slot = None, ts_err = None, ts_confirmations = None\<rparr>
      | Inr (Some v) \<Rightarrow>
          Inr \<lparr>confirmed = (confirmationStatus v = Some ''confirmed''
                             \<or> confirmationStatus v = Some ''finalized''),
               ts_slot = slot v,
               ts_err = (if status_err v \<noteq> JNull then Some (status_err v) else None),
               ts_confirmations = confirmations v\<rparr>)"

definition getTransactionStatus :: "exn + SignatureStatus option \<Rightarrow> exn + TransactionStatus" where
  "getTransactionStatus rpc =
     (case status_try rpc of
        Inr r \<Rightarrow> Inr r
      | Inl e \<Rightarrow>
          Inr \<lparr>confirmed = False, ts_slot = None, ts_err = None, ts_confirmations = None\<rparr>)"


section \<open>RaydiumService\<close>

subsection \<open>The pool data cache\<close>

text \<open>
  \<open>poolDataCache\<close>: the pool data (\<open>None\<close> for \<open>null\<close>) and the time it was stored at,
  in milliseconds. The type of the pool data is left open.
\<close>

record 'p PoolDataCache =
  data :: "'p option"
  timestamp :: int

definition CACHE_DURATION_MS :: int where
  "CACHE_DURATION_MS = 30000"

definition initialCache :: "'p PoolDataCache" where
  "initialCache = \<lparr>data = None, timestamp = 0\<rparr>"

text \<open>
  \<open>getPoolInfo\<close> at the time \<open>now\<close>, run to its end without another call in between.
  \<open>fetch\<close> is the outcome \<open>fetchFromDirectRPC\<close> has if it is called. The result is what
  the call returns or throws, the cache it leaves, and the number of calls of
  \<open>fetchFromDirectRPC\<close> it made. \<open>fetchAndStore\<close> is the part after the test of the cache.
\<close>

definition fetchAndStore ::
  "int \<Rightarrow> exn + 'p \<Rightarrow> 'p PoolDataCache \<Rightarrow> (exn + 'p) \<times> 'p PoolDataCache \<times> nat" where
  "fetchAndStore now fetch cache =
     (case fetch of
        Inr poolInfo \<Rightarrow> (Inr poolInfo, \<lparr>data = Some poolInfo, timestamp = now\<rparr>, 1)
      | Inl e \<Rightarrow>
          (Inl (JError ''Error'' (''Failed to fetch real pool data: '' @ toStr e)), cache, 1))"

definition getPoolInfo ::
  "int \<Rightarrow> exn + 'p \<Rightarrow> 'p PoolDataCache \<Rightarrow> (exn + 'p) \<times> 'p PoolDataCache \<times> nat" where
  "getPoolInfo now fetch cache =
     (case data cache of
        Some cached \<Rightarrow>
          if now - timestamp cache < CACHE_DURATION_MS then (Inr cached, cache, 0)
          else fetchAndStore now fetch cache
      | None \<Rightarrow> fetchAndStore now fetch cache)"

text \<open>The test of the cache: there is pool data, and it is younger than the duration.\<close>

definition liveEntry :: "'p PoolDataCache \<Rightarrow> int \<Rightarrow> bool" where
  "liveEntry cache now =
     (case data cache of
        Some cached \<Rightarrow> now - timestamp cache < CACHE_DURATION_MS
      | None \<Rightarrow> False)"

subsection \<open>Overlapping calls of getPoolInfo\<close>

text \<open>
  \<open>getPoolInfo\<close> is an \<open>async\<close> function with one \<open>await\<close>, on \<open>fetchFromDirectRPC\<close>.
  The event loop runs the code before the \<open>await\<close> and the code after it each in one piece,
  and other calls may run in between. The state of the service is the cache, the calls
  that are waiting for their fetch (each with the \<open>now\<close> it read on entry), and the number
  of fetches started so far.
\<close>

record 'p Service =
  poolDataCache :: "'p PoolDataCache"
  inFlight :: "int list"
  fetchesStarted :: nat

definition idle :: "'p Service" where
  "idle = \<lparr>poolDataCache = initialCache, inFlight = [], fetchesStarted = 0\<rparr>"

text \<open>
  A call arrives at the time \<open>now\<close> and runs to its \<open>await\<close>, or to its \<open>return\<close> when
  the cache answers.
\<close>

definition arrive :: "'p Service \<Rightarrow> int \<Rightarrow> 'p Service" where
  "arrive s now =
     (case data (poolDataCache s) of
        Some cached \<Rightarrow>
          if now - timestamp (poolDataCache s) < CACHE_DURATION_MS then s
          else s\<lparr>inFlight := inFlight s @ [now], fetchesStarted := fetchesStarted s + 1\<rparr>
      | None \<Rightarrow> s\<lparr>inFlight := inFlight s @ [now], fetchesStarted := fetchesStarted s + 1\<rparr>)"

text \<open>
  The fetch of the waiting call number \<open>i\<close> settles with \<open>fetch\<close>, and the call runs to
  its end: it stores the pool data under the time it read on entry, or throws.
\<close>

definition settle :: "'p Service \<Rightarrow> nat \<Rightarrow> exn + 'p \<Rightarrow> 'p Service" where
  "settle s i fetch =
     (if i < length (inFlight s) then
        (case fetch of
           Inr poolInfo \<Rightarrow>
             s\<lparr>poolDataCache := \<lparr>data = Some poolInfo, timestamp = inFlight s ! i\<rparr>,
               inFlight := take i (inFlight s) @ drop (Suc i) (inFlight s)\<rparr>
         | Inl e \<Rightarrow> s\<lparr>inFlight := take i (inFlight s) @ drop (Suc i) (inFlight s)\<rparr>)
      else s)"

subsection \<open>Withdrawal\<close>

datatype TxVersion = LEGACY | V0

record LiquidityPosition =
  lpTokenBalance :: real

text \<open>The argument of \<open>raydium.liquidity.removeLiquidity\<close>; the amounts are \<open>BN\<close> integers.\<close>

record 'p RemoveLiquidityParams =
  poolInfo :: 'p
  lpAmount :: int
  baseAmountMin :: int
  quoteAmountMin :: int
  txVersion :: TxVersion

text \<open>
  The \<open>try\<close> block of \<open>withdrawLiquidity\<close>. Its parameters are the constructor
  \<open>new BN(number)\<close> of the library, which may throw, the outcomes of the awaited calls
  \<open>getLiquidityPosition()\<close> and \<open>getPoolInfo()\<close>, and the SDK: \<open>removeLiquidity\<close> throws
  or returns an \<open>execute\<close> that throws or returns a transaction id. The second component
  lists the arguments \<open>removeLiquidity\<close> was called with.
\<close>

definition withdraw_try ::
  "(real \<Rightarrow> exn + int) \<Rightarrow> exn + LiquidityPosition option \<Rightarrow> exn + 'p
     \<Rightarrow> ('p RemoveLiquidityParams \<Rightarrow> exn + (exn + string))
     \<Rightarrow> (exn + TransactionResult) \<times> 'p RemoveLiquidityParams list" where
  "withdraw_try toBN liquidityPosition poolInfoResult removeLiquidity =
     (case liquidityPosition of
        Inl e \<Rightarrow> (Inl e, [])
      | Inr None \<Rightarrow> (Inl (JError ''Error'' ''No liquidity position found''), [])
      | Inr (Some position) \<Rightarrow>
          (case poolInfoResult of
             Inl e \<Rightarrow> (Inl e, [])
           | Inr pool \<Rightarrow>
               (case toBN (lpTokenBalance position * 10 ^ 6) of
                  Inl e \<Rightarrow> (Inl e, [])
                | Inr lp \<Rightarrow>
                    (let params = \<lparr>poolInfo = pool, lpAmount = lp, baseAmountMin = 0,
                                   quoteAmountMin = 0, txVersion = V0\<rparr>
                     in case removeLiquidity params of
                          Inl e \<Rightarrow> (Inl e, [params])
                        | Inr execute \<Rightarrow>
                            (case execute of
                               Inl e \<Rightarrow> (Inl e, [params])
                             | Inr txId \<Rightarrow>
                                 (Inr \<lparr>success = True, signature = Some txId, error = None\<rparr>,
                                  [params]))))))"

text \<open>
  The constructor \<open>new BN(number)\<close> of bn.js: the number is truncated, and a magnitude
  of \<open>2 ^ 53\<close> or more fails its assertion.
\<close>

definition newBN :: "real \<Rightarrow> exn + int" where
  "newBN x =
     (if \<bar>x\<bar> < 2 ^ 53 then Inr (if 0 \<le> x then \<lfloor>x\<rfloor> else - \<lfloor>- x\<rfloor>)
      else Inl (JError ''Error'' ''Assertion failed''))"

definition withdrawLiquidity ::
  "(real \<Rightarrow> exn + int) \<Rightarrow> exn + LiquidityPosition option \<Rightarrow> exn + 'p
     \<Rightarrow> ('p RemoveLiquidityParams \<Rightarrow> exn + (exn + string))
     \<Rightarrow> TransactionResult \<times> 'p RemoveLiquidityParams list" where
  "withdrawLiquidity toBN liquidityPosition poolInfoResult removeLiquidity =
     (case withdraw_try toBN liquidityPosition poolInfoResult removeLiquidity of
        (Inr res, calls) \<Rightarrow> (res, calls)
      | (Inl e, calls) \<Rightarrow> (\<lparr>success = False, signature = None, error = Some (toStr e)\<rparr>, calls))"


section \<open>Example runs\<close>

text \<open>The default configuration: three tries, a base delay of one second.\<close>

definition defaultEnv :: Environment where
  "defaultEnv = \<lparr>maxRetries = 3, retryBaseDelayMs = 1000\<rparr>"

text \<open>
  In the example runs every number the delay is computed from, and every intermediate
  result, is a double (1000, 1/2, 500, 1500 and the like), so the rounding leaves each of
  them as it is.
\<close>

definition noRounding :: "real \<Rightarrow> real" where
  "noRounding x = x"

definition halfJitter :: "int \<Rightarrow> real" where
  "halfJitter i = 1 / 2"

definition simulationOk :: "exn + SimulatedTransactionResponse" where
  "simulationOk = Inr \<lparr>sim_err = JNull, sim_logs = Some []\<rparr>"

text \<open>
  A node on which the transaction is accepted and never confirmed: the wait ends with
  the blockhash expired, on every attempt.
\<close>

definition neverConfirms :: "int \<Rightarrow> RpcAttempt" where
  "neverConfirms i =
     \<lparr>simulate_rpc = simulationOk, send_rpc = Inr ''sig'', blockhash_rpc = Inr (),
      confirm_rpc = Inl (JError ''TransactionExpiredBlockheightExceededError''
                           ''block height exceeded'')\<rparr>"

text \<open>
  A node on which the transaction lands and fails in execution with the custom program
  error 1: the confirmation reports this \<open>err\<close> on every attempt.
\<close>

definition customError :: jsval where
  "customError = JObj [(''InstructionError'', JArr [JNum 0, JObj [(''Custom'', JNum 1)]])]"

definition landsAndFails :: "int \<Rightarrow> RpcAttempt" where
  "landsAndFails i =
     \<lparr>simulate_rpc = simulationOk, send_rpc = Inr ''sig'', blockhash_rpc = Inr (),
      confirm_rpc = Inr customError\<rparr>"

definition twoTries :: Options where
  "twoTries = \<lparr>skipPreflight = False, maxRetries_opt = Some 2, skipConfirmation = False\<rparr>"

definition twoTriesNoPreflight :: Options where
  "twoTriesNoPreflight =
     \<lparr>skipPreflight = True, maxRetries_opt = Some 2, skipConfirmation = False\<rparr>"


text \<open>A position of five LP tokens, and an SDK that builds and executes the removal.\<close>

definition fiveTokens :: LiquidityPosition where
  "fiveTokens = \<lparr>lpTokenBalance = 5\<rparr>"

definition sdkExecutes :: "nat RemoveLiquidityParams \<Rightarrow> exn + (exn + string)" where
  "sdkExecutes params = Inr (Inr ''txid'')"


section \<open>Properties of the error classification\<close>

lemma handleError_string:
  "handleError stringify (JStr s) = Inr (classifyMessage s)"
  by (simp add: handleError_def extractErrorMessage_def)

lemma handleError_Error:
  "handleError stringify (JError n m) = Inr (classifyMessage m)"
  by (simp add: handleError_def extractErrorMessage_def)

lemma handleError_primitive:
  "\<not> is_string v \<Longrightarrow> \<not> (truthy v \<and> is_object v)
   \<Longrightarrow> handleError stringify v = Inr (classifyMessage ''Unknown error occurred'')"
  by (cases v) (simp_all add: handleError_def extractErrorMessage_def)

lemma classifyMessage_unknown:
  "categorizeError s = UNKNOWN \<Longrightarrow>
   category (classifyMessage s) = UNKNOWN \<and> severity (classifyMessage s) = LOW
   \<and> retryable (classifyMessage s) \<and> technicalDetails (classifyMessage s) = Some s"
  by (simp add: classifyMessage_def)

text \<open>
  C3. \<open>handleError\<close> is meant to turn any value into an \<open>ErrorInfo\<close> and never
  to raise. It does so on every string, on every \<open>Error\<close>, and on \<open>null\<close>,
  \<open>undefined\<close>, booleans and numbers (the lemmas above), and a message that matches no
  pattern is classified UNKNOWN, LOW and retryable. On the object
  \<open>{ cause: { message: 42 } }\<close> it raises: \<open>extractErrorMessage\<close> returns the number
  42 where a string is declared, and \<open>categorizeError\<close> calls \<open>toLowerCase\<close> on it.
  This holds whatever \<open>JSON.stringify\<close> does.
\<close>

theorem handleError_raises_on_numeric_cause_message:
  "handleError stringify (JObj [(''cause'', JObj [(''message'', JNum 42)])])
     = Inl (TypeError ''errorMessage.toLowerCase is not a function'')"
  by (simp add: handleError_def extractErrorMessage_def)

lemma getErrorInfo_category: "category (getErrorInfo c m) = c"
  by (cases c) simp_all

lemma getErrorInfo_retryable:
  "retryable (getErrorInfo c m) = (c \<noteq> WALLET \<and> c \<noteq> VALIDATION \<and> c \<noteq> CONFIGURATION)"
  by (cases c) simp_all

text \<open>
  C4, as the code has it. The classification of every message has \<open>retryable = false\<close>
  in the categories CONFIGURATION, VALIDATION and WALLET and \<open>retryable = true\<close> in every
  other category, whatever the severity; \<open>shouldRetry\<close>, with attempts left, then retries
  exactly the errors of the other categories whose severity is not CRITICAL.
\<close>

theorem retryable_by_category:
  "retryable (classifyMessage m) =
     (category (classifyMessage m) \<noteq> CONFIGURATION \<and> category (classifyMessage m) \<noteq> VALIDATION
      \<and> category (classifyMessage m) \<noteq> WALLET)
   \<and> shouldRetry (classifyMessage m) attempt limit =
     (attempt < limit \<and> category (classifyMessage m) \<noteq> CONFIGURATION
      \<and> category (classifyMessage m) \<noteq> VALIDATION \<and> category (classifyMessage m) \<noteq> WALLET
      \<and> severity (classifyMessage m) \<noteq> CRITICAL)"
  by (auto simp: classifyMessage_def shouldRetry_def getErrorInfo_retryable getErrorInfo_category)

text \<open>
  A network error with the word \<open>critical\<close> in its message: the field \<open>retryable\<close>
  is true, the severity is CRITICAL, and \<open>shouldRetry\<close> declines.
\<close>

theorem retryable_by_category_witness:
  "retryable (classifyMessage ''Critical network outage'')
   \<and> severity (classifyMessage ''Critical network outage'') = CRITICAL
   \<and> \<not> shouldRetry (classifyMessage ''Critical network outage'') 1 3"
proof -
  have c: "category (classifyMessage ''Critical network outage'') = NETWORK"
    by code_simp
  have s: "severity (classifyMessage ''Critical network outage'') = CRITICAL"
    by code_simp
  show ?thesis
    using retryable_by_category [of "''Critical network outage''" 1 3] c s by simp
qed

text \<open>
  C4 as stated fails in the category WALLET: the message \<open>account not found\<close> is
  classified WALLET with severity LOW, neither CONFIGURATION nor VALIDATION nor CRITICAL, and
  is not retryable.
\<close>

theorem wallet_error_not_retryable_counterexample:
  "category (classifyMessage ''account not found'') = WALLET
   \<and> severity (classifyMessage ''account not found'') = LOW
   \<and> retryable (classifyMessage ''account not found'') = False"
  by (simp add: classifyMessage_def categorizeError_def matchesPattern_def toLowerCase_def
        lower_char_def determineSeverity_def)


section \<open>Properties of the transaction service\<close>

subsection \<open>Simulation and status never raise\<close>

text \<open>
  C8. \<open>simulateTransaction\<close> returns a result for every behaviour of the RPC client,
  a thrown error included, and never raises. The result has \<open>success = true\<close> and no error
  message exactly when the client returned a response whose \<open>err\<close> is falsy (\<open>null\<close>, for
  the node); otherwise it has \<open>success = false\<close> and carries an error message.
\<close>

theorem simulateTransaction_never_raises:
  "\<exists>r. simulateTransaction stringify rpc = Inr r
       \<and> (sim_success r \<longrightarrow> (\<exists>v. rpc = Inr v \<and> \<not> truthy (sim_err v)) \<and> sim_error r = None)
       \<and> (\<not> sim_success r \<longrightarrow> (\<exists>msg. sim_error r = Some msg)
             \<and> (case rpc of Inl e \<Rightarrow> True | Inr v \<Rightarrow> truthy (sim_err v)))"
  by (auto simp: simulateTransaction_def simulate_try_def split: sum.splits)

theorem simulateTransaction_never_raises_witness:
  "\<exists>r. simulateTransaction JSON_stringify (Inl (JError ''Error'' ''fetch failed'')) = Inr r
       \<and> \<not> sim_success r \<and> sim_error r = Some ''Simulation failed: Error: fetch failed''"
  using simulateTransaction_never_raises [of JSON_stringify "Inl (JError ''Error'' ''fetch failed'')"]
  by (simp add: simulateTransaction_def simulate_try_def)

text \<open>
  C10. \<open>getTransactionStatus\<close> returns a record for every behaviour of the RPC client
  and never raises. \<open>confirmed\<close> is true exactly when a status is reported whose
  \<open>confirmationStatus\<close> is \<open>confirmed\<close> or \<open>finalized\<close>, and a thrown error gives
  \<open>{ confirmed: false }\<close> with no other field.
\<close>

theorem getTransactionStatus_total:
  "\<exists>r. getTransactionStatus rpc = Inr r
       \<and> confirmed r = (case rpc of
                          Inl e \<Rightarrow> False
                        | Inr None \<Rightarrow> False
                        | Inr (Some v) \<Rightarrow> confirmationStatus v = Some ''confirmed''
                                          \<or> confirmationStatus v = Some ''finalized'')
       \<and> ((\<exists>e. rpc = Inl e) \<longrightarrow>
            r = \<lparr>confirmed = False, ts_slot = None, ts_err = None, ts_confirmations = None\<rparr>)"
  by (auto simp: getTransactionStatus_def status_try_def split: sum.splits option.splits)

theorem getTransactionStatus_total_witness:
  "getTransactionStatus (Inl (JError ''Error'' ''fetch failed''))
     = Inr \<lparr>confirmed = False, ts_slot = None, ts_err = None, ts_confirmations = None\<rparr>
   \<and> (\<exists>r. getTransactionStatus
            (Inr (Some \<lparr>slot = Some 7, confirmations = None, status_err = JNull,
                         confirmationStatus = Some ''finalized''\<rparr>)) = Inr r \<and> confirmed r)"
  using getTransactionStatus_total [of "Inl (JError ''Error'' ''fetch failed'')"]
    getTransactionStatus_total [of "Inr (Some \<lparr>slot = Some 7, confirmations = None, status_err = JNull,
                         confirmationStatus = Some ''finalized''\<rparr>)"]
  by auto

subsection \<open>Retry delay\<close>

text \<open>
  C5, as the code has it. The rounding to the nearest double is monotone, leaves a double
  as it is, and 0 and 1000 are doubles. For an attempt number \<open>i \<ge> 1\<close> and a value of
  \<open>Math.random()\<close> in \<open>[0, 1)\<close> the delay is the smaller of the backoff
  \<open>base * 2 ^ (i - 1)\<close> plus the jitter and the ceiling of 30 seconds, all in double
  arithmetic. It never exceeds the ceiling, it is at most the backoff plus one second, and
  it is at least the smaller of the backoff and the ceiling.
\<close>

theorem retry_delay_bounds:
  assumes "1 \<le> attempt" and "0 \<le> random" and "random < 1"
    and mono: "\<forall>x y. x \<le> y \<longrightarrow> fl x \<le> fl y"
    and idem: "\<forall>x. fl (fl x) = fl x"
    and zero: "fl 0 = 0" and thousand: "fl 1000 = 1000"
  shows "calculateRetryDelay fl base random attempt
           = min (fl (fl (base * 2 ^ nat (attempt - 1)) + fl (random * 1000))) 30000
         \<and> calculateRetryDelay fl base random attempt \<le> 30000
         \<and> min (fl (base * 2 ^ nat (attempt - 1))) 30000
               \<le> calculateRetryDelay fl base random attempt
         \<and> calculateRetryDelay fl base random attempt
               \<le> fl (fl (base * 2 ^ nat (attempt - 1)) + 1000)"
proof -
  let ?e = "fl (base * 2 ^ nat (attempt - 1))"
  let ?j = "fl (random * 1000)"
  have p: "pow2 (attempt - 1) = 2 ^ nat (attempt - 1)"
    using assms(1) by (simp add: pow2_def)
  have d: "calculateRetryDelay fl base random attempt = min (fl (?e + ?j)) 30000"
    by (simp add: calculateRetryDelay_def p Let_def)
  have "fl 0 \<le> ?j" and "?j \<le> fl 1000"
    using mono assms(2,3) by simp_all
  then have j: "0 \<le> ?j" "?j \<le> 1000"
    using zero thousand by simp_all
  have "fl ?e \<le> fl (?e + ?j)" and u: "fl (?e + ?j) \<le> fl (?e + 1000)"
    using mono j by simp_all
  then have l: "?e \<le> fl (?e + ?j)"
    using idem by simp
  show ?thesis
    using d l u by (simp add: min_def)
qed

text \<open>
  With the base delay of one second and half a second of jitter, the delay before the
  third try is 2.5 seconds. Before the seventh try the backoff is 32 seconds, above the
  ceiling: the delay is 30 seconds, below \<open>base * 2 ^ (i - 1)\<close>. All these numbers are
  doubles.
\<close>

theorem retry_delay_bounds_witness:
  "calculateRetryDelay noRounding 1000 (1 / 2) 2 = 2500"
proof -
  have m: "\<forall>x y. x \<le> y \<longrightarrow> noRounding x \<le> noRounding y"
    and i: "\<forall>x. noRounding (noRounding x) = noRounding x"
    and z: "noRounding 0 = 0" and t: "noRounding 1000 = 1000"
    by (simp_all add: noRounding_def)
  have a: "(1::int) \<le> 2" and r: "(0::real) \<le> 1 / 2" "(1::real) / 2 < 1"
    by simp_all
  have "calculateRetryDelay noRounding 1000 (1 / 2) 2
          = min (noRounding (noRounding (1000 * 2 ^ nat (2 - 1)) + noRounding (1 / 2 * 1000))) 30000"
    using retry_delay_bounds [OF a r m i z t, of 1000] by blast
  also have "\<dots> = 2500"
    by (simp add: noRounding_def)
  finally show ?thesis .
qed

theorem retry_delay_below_backoff_counterexample:
  "calculateRetryDelay noRounding 1000 (1 / 2) 6 = 30000
   \<and> calculateRetryDelay noRounding 1000 (1 / 2) 6 < noRounding (1000 * 2 ^ (6 - 1))"
  by (simp add: calculateRetryDelay_def pow2_def noRounding_def)

subsection \<open>The attempts of a run\<close>

lemma attempt_numbers_append:
  "attempt_numbers (xs @ ys) = attempt_numbers xs @ attempt_numbers ys"
  by (induction xs rule: attempt_numbers.induct) simp_all

lemma submissions_append: "submissions (xs @ ys) = submissions xs + submissions ys"
  by (simp add: submissions_def)

lemma submissions_Cons: "submissions (ev # evs) = (if ev = EvSend then 1 else 0) + submissions evs"
  by (simp add: submissions_def)

lemma submissions_Nil: "submissions [] = 0"
  by (simp add: submissions_def)

lemma preflight_events:
  "snd (preflight stringify options rpc) = (if skipPreflight options then [] else [EvSimulate])"
  by (simp add: preflight_def split: sum.splits)

lemma attempt_try_numbers: "attempt_numbers (snd (attempt_try stringify options rpc)) = []"
proof -
  obtain r evs where p: "preflight stringify options rpc = (r, evs)"
    by (cases "preflight stringify options rpc")
  have "evs = (if skipPreflight options then [] else [EvSimulate])"
    using preflight_events [of stringify options rpc] p by simp
  then show ?thesis
    using p by (auto simp: attempt_try_def attempt_numbers_append split: sum.splits)
qed

lemma attempt_try_submissions: "submissions (snd (attempt_try stringify options rpc)) \<le> 1"
proof -
  obtain r evs where p: "preflight stringify options rpc = (r, evs)"
    by (cases "preflight stringify options rpc")
  have "evs = (if skipPreflight options then [] else [EvSimulate])"
    using preflight_events [of stringify options rpc] p by simp
  then show ?thesis
    using p by (auto simp: attempt_try_def submissions_def split: sum.splits)
qed

lemma attempt_try_success:
  "attempt_try stringify options rpc = (Inr res, evs) \<Longrightarrow> success res"
  by (auto simp: attempt_try_def split: sum.splits prod.splits if_splits)

lemma attempt_try_unconfirmed:
  "\<not> skipConfirmation options \<Longrightarrow> \<not> confirmTransaction (blockhash_rpc rpc) (confirm_rpc rpc)
   \<Longrightarrow> \<exists>e. fst (attempt_try stringify options rpc) = Inl e"
  by (auto simp: attempt_try_def split: sum.splits prod.splits if_splits)

lemmas attempts_from_step = attempts_from.simps

declare attempts_from.simps [simp del]

lemma attempts_from_numbers:
  "attempt_numbers (snd (attempts_from stringify env fl random options world m a le))
     = [a .. a + int (length (attempt_numbers (snd (attempts_from stringify env fl random options world m a le)))) - 1]
   \<and> a + int (length (attempt_numbers (snd (attempts_from stringify env fl random options world m a le)))) - 1 \<le> max m (a - 1)"
proof (induction stringify env fl random options world m a le rule: attempts_from.induct)
  case (1 stringify env fl random options world maxR attempt lastError)
  show ?case
  proof (cases "attempt \<le> maxR")
    case False
    then show ?thesis by (simp add: attempts_from_step [of _ _ _ _ _ _ maxR attempt])
  next
    case True
    obtain r evs where t: "attempt_try stringify options (world attempt) = (r, evs)"
      by (cases "attempt_try stringify options (world attempt)")
    have n: "attempt_numbers evs = []"
      using attempt_try_numbers [of stringify options "world attempt"] t by simp
    show ?thesis
    proof (cases r)
      case (Inr res)
      then show ?thesis
        using True t n by (simp add: attempts_from_step [of _ _ _ _ _ _ maxR attempt] upto_rec1)
    next
      case (Inl e)
      obtain res rest where
        rec: "attempts_from stringify env fl random options world maxR (attempt + 1) (Some e) = (res, rest)"
        by (cases "attempts_from stringify env fl random options world maxR (attempt + 1) (Some e)")
      have ih: "attempt_numbers rest = [attempt + 1 .. attempt + 1 + int (length (attempt_numbers rest)) - 1]
                \<and> attempt + 1 + int (length (attempt_numbers rest)) - 1 \<le> max maxR attempt"
        using "1.IH" [OF True t [symmetric] Inl] rec by simp
      have tr: "attempt_numbers (snd (attempts_from stringify env fl random options world maxR attempt lastError))
                  = attempt # attempt_numbers rest"
        using True t Inl rec n
        by (simp add: attempts_from_step [of _ _ _ _ _ _ maxR attempt] attempt_numbers_append)
      have "attempt # [attempt + 1 .. attempt + int (length (attempt_numbers rest))]
              = [attempt .. attempt + int (length (attempt_numbers rest))]"
        by (simp add: upto_rec1)
      then show ?thesis
        using ih tr True by (simp add: add.commute add.left_commute)
    qed
  qed
qed

lemma attempts_from_failed:
  "\<not> success (fst (attempts_from stringify env fl random options world m a le))
   \<Longrightarrow> a + int (length (attempt_numbers (snd (attempts_from stringify env fl random options world m a le)))) - 1
         = max m (a - 1)"
proof (induction stringify env fl random options world m a le rule: attempts_from.induct)
  case (1 stringify env fl random options world maxR attempt lastError)
  show ?case
  proof (cases "attempt \<le> maxR")
    case False
    then show ?thesis by (simp add: attempts_from_step [of _ _ _ _ _ _ maxR attempt])
  next
    case True
    obtain r evs where t: "attempt_try stringify options (world attempt) = (r, evs)"
      by (cases "attempt_try stringify options (world attempt)")
    have n: "attempt_numbers evs = []"
      using attempt_try_numbers [of stringify options "world attempt"] t by simp
    show ?thesis
    proof (cases r)
      case (Inr res)
      then have "success res" using attempt_try_success t by blast
      then show ?thesis
        using "1.prems" True t Inr by (simp add: attempts_from_step [of _ _ _ _ _ _ maxR attempt])
    next
      case (Inl e)
      obtain res rest where
        rec: "attempts_from stringify env fl random options world maxR (attempt + 1) (Some e) = (res, rest)"
        by (cases "attempts_from stringify env fl random options world maxR (attempt + 1) (Some e)")
      have res: "\<not> success res"
        using "1.prems" True t Inl rec by (simp add: attempts_from_step [of _ _ _ _ _ _ maxR attempt])
      have ih: "attempt + 1 + int (length (attempt_numbers rest)) - 1 = max maxR attempt"
        using "1.IH" [OF True t [symmetric] Inl] rec res by simp
      have tr: "attempt_numbers (snd (attempts_from stringify env fl random options world maxR attempt lastError))
                  = attempt # attempt_numbers rest"
        using True t Inl rec n
        by (simp add: attempts_from_step [of _ _ _ _ _ _ maxR attempt] attempt_numbers_append)
      show ?thesis
        using ih tr True by simp
    qed
  qed
qed

lemma attempts_from_all_fail:
  "(\<And>i. a \<le> i \<Longrightarrow> i \<le> m \<Longrightarrow> \<exists>e. fst (attempt_try stringify options (world i)) = Inl e)
   \<Longrightarrow> \<not> success (fst (attempts_from stringify env fl random options world m a le))"
proof (induction stringify env fl random options world m a le rule: attempts_from.induct)
  case (1 stringify env fl random options world maxR attempt lastError)
  show ?case
  proof (cases "attempt \<le> maxR")
    case False
    then show ?thesis by (simp add: attempts_from_step [of _ _ _ _ _ _ maxR attempt])
  next
    case True
    obtain e where f: "fst (attempt_try stringify options (world attempt)) = Inl e"
      using "1.prems" [of attempt] True by auto
    obtain evs where t: "attempt_try stringify options (world attempt) = (Inl e, evs)"
      using f by (cases "attempt_try stringify options (world attempt)") auto
    obtain res rest where
      rec: "attempts_from stringify env fl random options world maxR (attempt + 1) (Some e) = (res, rest)"
      by (cases "attempts_from stringify env fl random options world maxR (attempt + 1) (Some e)")
    have "\<not> success (fst (attempts_from stringify env fl random options world maxR (attempt + 1) (Some e)))"
      using "1.IH" [OF True t [symmetric] refl] "1.prems" by simp
    then show ?thesis
      using True t rec by (simp add: attempts_from_step [of _ _ _ _ _ _ maxR attempt])
  qed
qed

lemma attempts_from_submissions:
  "submissions (snd (attempts_from stringify env fl random options world m a le)) \<le> nat (m + 1 - a)"
proof (induction stringify env fl random options world m a le rule: attempts_from.induct)
  case (1 stringify env fl random options world maxR attempt lastError)
  show ?case
  proof (cases "attempt \<le> maxR")
    case False
    then show ?thesis by (simp add: attempts_from_step [of _ _ _ _ _ _ maxR attempt] submissions_Nil)
  next
    case True
    obtain r evs where t: "attempt_try stringify options (world attempt) = (r, evs)"
      by (cases "attempt_try stringify options (world attempt)")
    have n: "submissions evs \<le> 1"
      using attempt_try_submissions [of stringify options "world attempt"] t by simp
    show ?thesis
    proof (cases r)
      case (Inr res)
      then show ?thesis
        using True t n by (simp add: attempts_from_step [of _ _ _ _ _ _ maxR attempt] submissions_Cons)
    next
      case (Inl e)
      obtain res rest where
        rec: "attempts_from stringify env fl random options world maxR (attempt + 1) (Some e) = (res, rest)"
        by (cases "attempts_from stringify env fl random options world maxR (attempt + 1) (Some e)")
      have ih: "submissions rest \<le> nat (maxR - attempt)"
        using "1.IH" [OF True t [symmetric] Inl] rec by simp
      have "submissions (snd (attempts_from stringify env fl random options world maxR attempt lastError))
              = submissions evs + submissions rest"
        using True t Inl rec
        by (simp add: attempts_from_step [of _ _ _ _ _ _ maxR attempt] submissions_append submissions_Cons submissions_Nil)
      then show ?thesis
        using ih n True by simp
    qed
  qed
qed

lemma attempt_try_landed:
  "submitted stringify options rpc \<Longrightarrow> landedWithError rpc \<Longrightarrow> \<not> skipConfirmation options
   \<Longrightarrow> (\<exists>e. fst (attempt_try stringify options rpc) = Inl e)
       \<and> submissions (snd (attempt_try stringify options rpc)) = 1"
proof -
  assume a: "submitted stringify options rpc" "landedWithError rpc" "\<not> skipConfirmation options"
  obtain r evs where p: "preflight stringify options rpc = (r, evs)"
    by (cases "preflight stringify options rpc")
  have e: "evs = (if skipPreflight options then [] else [EvSimulate])"
    using preflight_events [of stringify options rpc] p by simp
  have c: "\<not> confirmTransaction (blockhash_rpc rpc) (confirm_rpc rpc)"
    using a(2) by (auto simp: landedWithError_def confirmTransaction_def confirm_try_def split: sum.splits)
  show ?thesis
    using a p e c
    by (auto simp: submitted_def attempt_try_def submissions_def split: sum.splits)
qed

lemma attempts_from_all_landed:
  "(\<And>i. a \<le> i \<Longrightarrow> i \<le> m \<Longrightarrow> submitted stringify options (world i) \<and> landedWithError (world i))
   \<Longrightarrow> \<not> skipConfirmation options
   \<Longrightarrow> submissions (snd (attempts_from stringify env fl random options world m a le)) = nat (m + 1 - a)"
proof (induction stringify env fl random options world m a le rule: attempts_from.induct)
  case (1 stringify env fl random options world maxR attempt lastError)
  show ?case
  proof (cases "attempt \<le> maxR")
    case False
    then show ?thesis by (simp add: attempts_from_step [of _ _ _ _ _ _ maxR attempt] submissions_Nil)
  next
    case True
    have l: "(\<exists>e. fst (attempt_try stringify options (world attempt)) = Inl e)
       \<and> submissions (snd (attempt_try stringify options (world attempt))) = 1"
      using attempt_try_landed [of stringify options "world attempt"] "1.prems" True by simp
    then obtain e evs where t: "attempt_try stringify options (world attempt) = (Inl e, evs)"
      by (cases "attempt_try stringify options (world attempt)") auto
    have n: "submissions evs = 1" using l t by simp
    obtain res rest where
      rec: "attempts_from stringify env fl random options world maxR (attempt + 1) (Some e) = (res, rest)"
      by (cases "attempts_from stringify env fl random options world maxR (attempt + 1) (Some e)")
    have ih: "submissions rest = nat (maxR - attempt)"
      using "1.IH" [OF True t [symmetric] refl] "1.prems" rec by simp
    have "submissions (snd (attempts_from stringify env fl random options world maxR attempt lastError))
              = submissions evs + submissions rest"
      using True t rec
      by (simp add: attempts_from_step [of _ _ _ _ _ _ maxR attempt] submissions_append submissions_Cons submissions_Nil)
    then show ?thesis
      using ih n True by simp
  qed
qed

text \<open>
  C2, as the code has it. The attempts of a run are numbered from 1 without a gap, and
  there are at most \<open>maxRetries\<close> of them, where \<open>maxRetries\<close> is
  \<open>options.maxRetries\<close> when that is set and not zero and \<open>env.maxRetries\<close> otherwise:
  the limit counts the tries, not the retries after the first try. When the confirmation
  fails on every attempt the run makes exactly the attempts \<open>1 .. maxRetries\<close> and returns
  a failed result.
\<close>

theorem attempts_numbered_to_maxRetries:
  "attempt_numbers (snd (sendAndConfirmTransaction stringify env fl random options world))
     = [1 .. int (length (attempt_numbers
                            (snd (sendAndConfirmTransaction stringify env fl random options world))))]
   \<and> int (length (attempt_numbers
                    (snd (sendAndConfirmTransaction stringify env fl random options world))))
       \<le> max 0 (effectiveMaxRetries env options)
   \<and> ((\<forall>i. 1 \<le> i \<and> i \<le> effectiveMaxRetries env options
            \<longrightarrow> \<not> confirmTransaction (blockhash_rpc (world i)) (confirm_rpc (world i)))
        \<and> \<not> skipConfirmation options
       \<longrightarrow> attempt_numbers (snd (sendAndConfirmTransaction stringify env fl random options world))
             = [1 .. effectiveMaxRetries env options]
           \<and> \<not> success (fst (sendAndConfirmTransaction stringify env fl random options world)))"
proof -
  let ?m = "effectiveMaxRetries env options"
  let ?run = "attempts_from stringify env fl random options world ?m 1 None"
  have n: "attempt_numbers (snd ?run) = [1 .. 1 + int (length (attempt_numbers (snd ?run))) - 1]
           \<and> 1 + int (length (attempt_numbers (snd ?run))) - 1 \<le> max ?m (1 - 1)"
    by (rule attempts_from_numbers)
  have f: "(\<forall>i. 1 \<le> i \<and> i \<le> ?m
            \<longrightarrow> \<not> confirmTransaction (blockhash_rpc (world i)) (confirm_rpc (world i)))
        \<and> \<not> skipConfirmation options
       \<Longrightarrow> attempt_numbers (snd ?run) = [1 .. ?m] \<and> \<not> success (fst ?run)"
  proof -
    assume h: "(\<forall>i. 1 \<le> i \<and> i \<le> ?m
            \<longrightarrow> \<not> confirmTransaction (blockhash_rpc (world i)) (confirm_rpc (world i)))
        \<and> \<not> skipConfirmation options"
    have "\<And>i. 1 \<le> i \<Longrightarrow> i \<le> ?m \<Longrightarrow> \<exists>e. fst (attempt_try stringify options (world i)) = Inl e"
      using h attempt_try_unconfirmed by blast
    then have ns: "\<not> success (fst ?run)"
      using attempts_from_all_fail [of 1 ?m stringify options world env fl random None] by simp
    then have "1 + int (length (attempt_numbers (snd ?run))) - 1 = max ?m (1 - 1)"
      by (rule attempts_from_failed)
    then have "attempt_numbers (snd ?run) = [1 .. max ?m 0]"
      using n by simp
    moreover have "[1 .. max ?m 0] = [1 .. ?m]"
      by (cases "0 \<le> ?m") (simp_all add: max_def)
    ultimately show ?thesis using ns by simp
  qed
  show ?thesis
    using n f by (simp add: sendAndConfirmTransaction_def max.commute)
qed

text \<open>
  With \<open>maxRetries = 2\<close> and a transaction that is never confirmed the run makes the
  attempts 1 and 2 and fails: two attempts, not three.
\<close>

theorem attempts_numbered_witness:
  "attempt_numbers (snd (sendAndConfirmTransaction JSON_stringify defaultEnv noRounding halfJitter
                           twoTries neverConfirms)) = [1, 2]
   \<and> \<not> success (fst (sendAndConfirmTransaction JSON_stringify defaultEnv noRounding halfJitter
                           twoTries neverConfirms))"
proof -
  have m: "effectiveMaxRetries defaultEnv twoTries = 2"
    by (simp add: effectiveMaxRetries_def twoTries_def)
  have s: "\<forall>i. 1 \<le> i \<and> i \<le> effectiveMaxRetries defaultEnv twoTries
            \<longrightarrow> \<not> confirmTransaction (blockhash_rpc (neverConfirms i)) (confirm_rpc (neverConfirms i))"
    by (simp add: neverConfirms_def confirmTransaction_def confirm_try_def)
  have c: "\<not> skipConfirmation twoTries"
    by (simp add: twoTries_def)
  have u: "[1 .. 2 :: int] = [1, 2]"
    by (simp add: upto_rec1)
  show ?thesis
    using attempts_numbered_to_maxRetries [of JSON_stringify defaultEnv noRounding halfJitter twoTries neverConfirms]
      m s c u by simp
qed

theorem three_attempts_counterexample:
  "effectiveMaxRetries defaultEnv twoTries = 2
   \<and> length (attempt_numbers (snd (sendAndConfirmTransaction JSON_stringify defaultEnv noRounding halfJitter
                           twoTries neverConfirms))) = 2"
  by (simp add: sendAndConfirmTransaction_def effectiveMaxRetries_def twoTries_def
        neverConfirms_def attempts_from_step simulationOk_def
        attempt_try_def preflight_def simulateTransaction_def simulate_try_def
        confirmTransaction_def confirm_try_def orEmpty_def)

text \<open>
  C1, as the code has it. \<open>confirmTransaction\<close> answers \<open>false\<close> for a transaction
  that landed and failed, as it does for a timeout, and the attempt is retried like any
  other failed attempt. A run submits the transaction at most \<open>maxRetries\<close> times, once
  per attempt; when every attempt is submitted and lands with an execution error, it
  submits it exactly \<open>maxRetries\<close> times and returns a failed result.
\<close>

theorem landed_failure_is_retried:
  "submissions (snd (sendAndConfirmTransaction stringify env fl random options world))
     \<le> nat (effectiveMaxRetries env options)
   \<and> ((\<forall>i. 1 \<le> i \<and> i \<le> effectiveMaxRetries env options
            \<longrightarrow> submitted stringify options (world i) \<and> landedWithError (world i))
        \<and> \<not> skipConfirmation options
       \<longrightarrow> submissions (snd (sendAndConfirmTransaction stringify env fl random options world))
             = nat (effectiveMaxRetries env options)
           \<and> \<not> success (fst (sendAndConfirmTransaction stringify env fl random options world)))"
proof (intro conjI impI)
  show "submissions (snd (sendAndConfirmTransaction stringify env fl random options world))
     \<le> nat (effectiveMaxRetries env options)"
    using attempts_from_submissions [of stringify env fl random options world "effectiveMaxRetries env options" 1 None]
    by (simp add: sendAndConfirmTransaction_def)
next
  assume h: "(\<forall>i. 1 \<le> i \<and> i \<le> effectiveMaxRetries env options
            \<longrightarrow> submitted stringify options (world i) \<and> landedWithError (world i))
        \<and> \<not> skipConfirmation options"
  show "submissions (snd (sendAndConfirmTransaction stringify env fl random options world))
             = nat (effectiveMaxRetries env options)"
    using attempts_from_all_landed [of 1 "effectiveMaxRetries env options" stringify options world env fl random None] h
    by (simp add: sendAndConfirmTransaction_def)
  have "\<And>i. 1 \<le> i \<Longrightarrow> i \<le> effectiveMaxRetries env options
          \<Longrightarrow> \<exists>e. fst (attempt_try stringify options (world i)) = Inl e"
    using h attempt_try_landed by blast
  then show "\<not> success (fst (sendAndConfirmTransaction stringify env fl random options world))"
    using attempts_from_all_fail [of 1 "effectiveMaxRetries env options" stringify options world env fl random None]
    by (simp add: sendAndConfirmTransaction_def)
qed

text \<open>
  With \<open>skipPreflight\<close> set and \<open>maxRetries = 2\<close>, on a node that reports the custom
  program error on every attempt, the first attempt lands and fails and the transaction is
  submitted a second time.
\<close>

theorem landed_failure_is_retried_witness:
  "submissions (snd (sendAndConfirmTransaction JSON_stringify defaultEnv noRounding halfJitter
                       twoTriesNoPreflight landsAndFails)) = 2
   \<and> \<not> success (fst (sendAndConfirmTransaction JSON_stringify defaultEnv noRounding halfJitter
                       twoTriesNoPreflight landsAndFails))"
proof -
  have m: "effectiveMaxRetries defaultEnv twoTriesNoPreflight = 2"
    by (simp add: effectiveMaxRetries_def twoTriesNoPreflight_def)
  have s: "\<forall>i. 1 \<le> i \<and> i \<le> effectiveMaxRetries defaultEnv twoTriesNoPreflight
            \<longrightarrow> submitted JSON_stringify twoTriesNoPreflight (landsAndFails i)
                \<and> landedWithError (landsAndFails i)"
    by (simp add: submitted_def preflight_def twoTriesNoPreflight_def landsAndFails_def
          landedWithError_def customError_def)
  have c: "\<not> skipConfirmation twoTriesNoPreflight"
    by (simp add: twoTriesNoPreflight_def)
  show ?thesis
    using landed_failure_is_retried [of JSON_stringify defaultEnv noRounding halfJitter twoTriesNoPreflight landsAndFails]
      m s c by simp
qed

theorem landed_failure_counterexample:
  "landedWithError (landsAndFails 1)
   \<and> submissions (snd (sendAndConfirmTransaction JSON_stringify defaultEnv noRounding halfJitter
                         twoTriesNoPreflight landsAndFails)) = 2"
  by (simp add: sendAndConfirmTransaction_def effectiveMaxRetries_def twoTriesNoPreflight_def
        landsAndFails_def customError_def landedWithError_def attempts_from_step
        attempt_try_def preflight_def confirmTransaction_def confirm_try_def submissions_def)


section \<open>Properties of the Raydium service\<close>

text \<open>
  C6, as the code has it. When the cache holds pool data stored less than
  \<open>CACHE_DURATION_MS\<close> before \<open>now\<close>, \<open>getPoolInfo\<close> returns that data, leaves the
  cache as it is and does not call \<open>fetchFromDirectRPC\<close>. The comparison is strict.
\<close>

theorem live_entry_is_returned:
  "data cache = Some v \<Longrightarrow> now - timestamp cache < CACHE_DURATION_MS
   \<Longrightarrow> getPoolInfo now fetch cache = (Inr v, cache, 0)"
  by (simp add: getPoolInfo_def)

text \<open>
  An entry stored at time 0 is returned at time 29999. At time 30000 its age equals the
  duration, and the pool data is fetched again.
\<close>

theorem live_entry_is_returned_witness:
  "getPoolInfo 29999 (Inr (2::nat)) \<lparr>data = Some 1, timestamp = 0\<rparr>
     = (Inr 1, \<lparr>data = Some 1, timestamp = 0\<rparr>, 0)"
  using live_entry_is_returned [of "\<lparr>data = Some (1::nat), timestamp = 0\<rparr>" 1 29999 "Inr 2"]
  by (simp add: CACHE_DURATION_MS_def)

theorem entry_at_ttl_is_reloaded_counterexample:
  "30000 - timestamp \<lparr>data = Some (1::nat), timestamp = 0\<rparr> \<le> CACHE_DURATION_MS
   \<and> getPoolInfo 30000 (Inr (2::nat)) \<lparr>data = Some 1, timestamp = 0\<rparr>
       = (Inr 2, \<lparr>data = Some 2, timestamp = 30000\<rparr>, 1)"
  by (simp add: getPoolInfo_def fetchAndStore_def CACHE_DURATION_MS_def)

lemma arrive_no_live_entry:
  "\<not> liveEntry (poolDataCache s) now
   \<Longrightarrow> arrive s now = s\<lparr>inFlight := inFlight s @ [now], fetchesStarted := fetchesStarted s + 1\<rparr>"
  by (simp add: arrive_def liveEntry_def split: option.splits)

lemma arrive_settle_getPoolInfo:
  "inFlight s = [] \<Longrightarrow>
   poolDataCache (settle (arrive s now) 0 fetch) = fst (snd (getPoolInfo now fetch (poolDataCache s)))
   \<and> fetchesStarted (settle (arrive s now) 0 fetch)
       = fetchesStarted s + snd (snd (getPoolInfo now fetch (poolDataCache s)))
   \<and> inFlight (settle (arrive s now) 0 fetch) = []"
  by (auto simp: arrive_def settle_def getPoolInfo_def fetchAndStore_def
        split: option.splits sum.splits)

text \<open>
  C7, as the code has it. There is no single flight: a call that finds no live entry starts
  a fetch of its own, whether or not another fetch is in flight. When the calls \<open>nows\<close>
  arrive, none of them finding a live entry, and no fetch settles in between, as many
  fetches are started and in flight as there were calls.
\<close>

theorem every_caller_starts_a_load:
  "\<forall>now \<in> set nows. \<not> liveEntry (poolDataCache s) now
   \<Longrightarrow> inFlight (foldl arrive s nows) = inFlight s @ nows
       \<and> fetchesStarted (foldl arrive s nows) = fetchesStarted s + length nows
       \<and> poolDataCache (foldl arrive s nows) = poolDataCache s"
proof (induction nows arbitrary: s)
  case Nil
  then show ?case by simp
next
  case (Cons now nows)
  have a: "arrive s now
             = s\<lparr>inFlight := inFlight s @ [now], fetchesStarted := fetchesStarted s + 1\<rparr>"
    using Cons.prems by (simp add: arrive_no_live_entry)
  have "\<forall>t \<in> set nows. \<not> liveEntry (poolDataCache (arrive s now)) t"
    using Cons.prems a by simp
  then show ?case
    using Cons.IH [of "arrive s now"] a by simp
qed

text \<open>
  Three calls arrive at the times 30000, 30001 and 30002 on a cache whose entry was stored
  at the time 0 and has expired: three fetches are in flight.
\<close>

theorem every_caller_starts_a_load_witness:
  "inFlight (foldl arrive
               \<lparr>poolDataCache = \<lparr>data = Some (1::nat), timestamp = 0\<rparr>, inFlight = [],
                fetchesStarted = 0\<rparr> [30000, 30001, 30002]) = [30000, 30001, 30002]
   \<and> fetchesStarted (foldl arrive
               \<lparr>poolDataCache = \<lparr>data = Some (1::nat), timestamp = 0\<rparr>, inFlight = [],
                fetchesStarted = 0\<rparr> [30000, 30001, 30002]) = 3"
proof -
  let ?s = "\<lparr>poolDataCache = \<lparr>data = Some (1::nat), timestamp = 0\<rparr>, inFlight = [],
             fetchesStarted = 0\<rparr>"
  have h: "\<forall>now \<in> set [30000, 30001, 30002]. \<not> liveEntry (poolDataCache ?s) now"
    by (simp add: liveEntry_def CACHE_DURATION_MS_def)
  have "inFlight (foldl arrive ?s [30000, 30001, 30002]) = inFlight ?s @ [30000, 30001, 30002]
        \<and> fetchesStarted (foldl arrive ?s [30000, 30001, 30002])
            = fetchesStarted ?s + length [30000, 30001, 30002 :: int]
        \<and> poolDataCache (foldl arrive ?s [30000, 30001, 30002]) = poolDataCache ?s"
    by (rule every_caller_starts_a_load [OF h])
  then have "inFlight (foldl arrive ?s [30000, 30001, 30002]) = [30000, 30001, 30002]"
    and "fetchesStarted (foldl arrive ?s [30000, 30001, 30002]) = 3"
    by simp_all
  then show ?thesis by blast
qed

text \<open>
  Two calls arrive at the times 0 and 1 on the initial cache, the second before the fetch
  of the first has settled: two fetches are in flight.
\<close>

theorem two_loads_in_flight_counterexample:
  "inFlight (arrive (arrive (idle :: nat Service) 0) 1) = [0, 1]
   \<and> fetchesStarted (arrive (arrive (idle :: nat Service) 0) 1) = 2"
  by (simp add: arrive_def idle_def initialCache_def)

text \<open>
  C9. Every call of \<open>removeLiquidity\<close> that \<open>withdrawLiquidity\<close> makes passes
  \<open>baseAmountMin = 0\<close> and \<open>quoteAmountMin = 0\<close>; and when there is a position, the
  pool data is available and the LP amount converts, it makes exactly one call, with these
  minimums.
\<close>

theorem withdrawal_minimums_are_zero:
  "(\<forall>params \<in> set (snd (withdrawLiquidity toBN position pool removeLiquidity)).
      baseAmountMin params = 0 \<and> quoteAmountMin params = 0)
   \<and> (\<forall>p pl lp. position = Inr (Some p) \<and> pool = Inr pl \<and> toBN (lpTokenBalance p * 10 ^ 6) = Inr lp
        \<longrightarrow> snd (withdrawLiquidity toBN position pool removeLiquidity)
              = [\<lparr>poolInfo = pl, lpAmount = lp, baseAmountMin = 0, quoteAmountMin = 0,
                   txVersion = V0\<rparr>])"
  by (auto simp: withdrawLiquidity_def withdraw_try_def Let_def split: sum.splits option.splits prod.splits)

theorem withdrawal_minimums_are_zero_witness:
  "snd (withdrawLiquidity newBN (Inr (Some fiveTokens)) (Inr (0::nat)) sdkExecutes)
     = [\<lparr>poolInfo = 0, lpAmount = 5000000, baseAmountMin = 0, quoteAmountMin = 0, txVersion = V0\<rparr>]"
proof -
  have b: "newBN (lpTokenBalance fiveTokens * 10 ^ 6) = Inr 5000000"
    by (simp add: newBN_def fiveTokens_def)
  show ?thesis
    using withdrawal_minimums_are_zero [of newBN "Inr (Some fiveTokens)" "Inr (0::nat)" sdkExecutes] b
    by simp
qed

end
